theory Spec2Isabelle
  imports Complex_Main "HOL-Library.Sublist" "HOL-Library.Monad_Syntax" "HOL-Library.Log_Nat"
begin

section \<open>Numbers of the host language\<close>

text \<open>
  Every numeric value of \<^verbatim>\<open>App.tsx\<close> is a JavaScript number, a double. A number is
  modelled as a rational or one of the three non-finite values; the arithmetic below
  follows the language's rules for the non-finite cases (division by zero does not raise,
  it yields an infinity or NaN). The operators \<open>js_sub\<close>, \<open>js_mul\<close> and \<open>js_div\<close> give the
  exact result of an operation on finite numbers, and \<open>to_double\<close> rounds a number to the
  nearest double, as the machine does after every operation. The rounding is applied where
  the program stores a result or compares it, that is to the time stamps and to the two
  sides of the test of the summary's filter, since there the last place can decide; the
  values that are only displayed, the offsets in percent and the minutes, are the exact
  ones, which differ from the program's in the last place at most. The sign of zero is not
  modelled: a zero is read as the positive zero, which is what the difference of two equal
  finite numbers is.
\<close>

datatype jsnum = Fin rat | PInf | NInf | NaN

definition inf_of_sign :: "rat \<Rightarrow> jsnum" where
  "inf_of_sign s = (if 0 < s then PInf else if s < 0 then NInf else NaN)"

fun js_sub :: "jsnum \<Rightarrow> jsnum \<Rightarrow> jsnum" where
  "js_sub (Fin a) (Fin b) = Fin (a - b)"
| "js_sub (Fin a) PInf = NInf"
| "js_sub (Fin a) NInf = PInf"
| "js_sub PInf (Fin b) = PInf"
| "js_sub PInf NInf = PInf"
| "js_sub NInf (Fin b) = NInf"
| "js_sub NInf PInf = NInf"
| "js_sub PInf PInf = NaN"
| "js_sub NInf NInf = NaN"
| "js_sub NaN y = NaN"
| "js_sub x NaN = NaN"

fun js_mul :: "jsnum \<Rightarrow> jsnum \<Rightarrow> jsnum" where
  "js_mul (Fin a) (Fin b) = Fin (a * b)"
| "js_mul (Fin a) PInf = inf_of_sign a"
| "js_mul (Fin a) NInf = inf_of_sign (- a)"
| "js_mul PInf (Fin b) = inf_of_sign b"
| "js_mul NInf (Fin b) = inf_of_sign (- b)"
| "js_mul PInf PInf = PInf"
| "js_mul PInf NInf = NInf"
| "js_mul NInf PInf = NInf"
| "js_mul NInf NInf = PInf"
| "js_mul NaN y = NaN"
| "js_mul x NaN = NaN"

fun js_div :: "jsnum \<Rightarrow> jsnum \<Rightarrow> jsnum" where
  "js_div (Fin a) (Fin b) = (if b = 0 then inf_of_sign a else Fin (a / b))"
| "js_div (Fin a) PInf = Fin 0"
| "js_div (Fin a) NInf = Fin 0"
| "js_div PInf (Fin b) = (if 0 \<le> b then PInf else NInf)"
| "js_div NInf (Fin b) = (if 0 \<le> b then NInf else PInf)"
| "js_div PInf PInf = NaN"
| "js_div PInf NInf = NaN"
| "js_div NInf PInf = NaN"
| "js_div NInf NInf = NaN"
| "js_div NaN y = NaN"
| "js_div x NaN = NaN"

text \<open>The relational operator \<^verbatim>\<open><\<close>: false whenever an operand is NaN.\<close>

fun js_lt :: "jsnum \<Rightarrow> jsnum \<Rightarrow> bool" where
  "js_lt (Fin a) (Fin b) = (a < b)"
| "js_lt (Fin a) PInf = True"
| "js_lt NInf (Fin b) = True"
| "js_lt NInf PInf = True"
| "js_lt x y = False"

text \<open>\<^verbatim>\<open>Math.round\<close>: the integer nearest to the argument, a tie going to the larger one.\<close>

fun Math_round :: "jsnum \<Rightarrow> jsnum" where
  "Math_round (Fin x) = Fin (of_int \<lfloor>x + 1 / 2\<rfloor>)"
| "Math_round x = x"

definition is_finite :: "jsnum \<Rightarrow> bool" where
  "is_finite x = (case x of Fin _ \<Rightarrow> True | _ \<Rightarrow> False)"

text \<open>
  Rounding to the nearest double, a tie going to the even significand. For \<open>x > 0\<close>,
  \<open>ilog2 x\<close> is the exponent \<open>e\<close> with \<open>2 ^ e \<le> x < 2 ^ (e + 1)\<close>. The doubles next to \<open>x\<close>
  are the multiples of \<open>q = 2 ^ (e - 52)\<close>, with \<open>e\<close> not below -1022 (the subnormal
  range); \<open>x\<close> is rounded to the nearest multiple, and the result is an infinity when it
  reaches \<open>2 ^ 1024\<close>.
\<close>

definition pow2 :: "int \<Rightarrow> rat" where
  "pow2 k = (if 0 \<le> k then 2 ^ nat k else 1 / 2 ^ nat (- k))"

definition ilog2 :: "rat \<Rightarrow> int" where
  "ilog2 x = (if 1 \<le> x then bitlen \<lfloor>x\<rfloor> - 1 else - bitlen (\<lceil>1 / x\<rceil> - 1))"

definition round_half_even :: "rat \<Rightarrow> int" where
  "round_half_even r =
     (let f = \<lfloor>r\<rfloor>; d = r - of_int f
      in if d < 1 / 2 then f else if 1 / 2 < d then f + 1 else if even f then f else f + 1)"

definition round_double :: "rat \<Rightarrow> jsnum" where
  "round_double x =
     (if x = 0 then Fin 0
      else
        let e = ilog2 \<bar>x\<bar>;
            q = pow2 (max e (- 1022) - 52);
            n = round_half_even (x / q)
        in if 1024 \<le> e \<or> (e = 1023 \<and> \<bar>n\<bar> = 2 ^ 53)
           then (if 0 < x then PInf else NInf)
           else Fin (of_int n * q))"

definition to_double :: "jsnum \<Rightarrow> jsnum" where
  "to_double x = (case x of Fin r \<Rightarrow> round_double r | _ \<Rightarrow> x)"

text \<open>Reading a property that may be missing as a number: \<^verbatim>\<open>undefined\<close> converts to NaN.\<close>

definition ToNumber :: "jsnum option \<Rightarrow> jsnum" where
  "ToNumber v = (case v of None \<Rightarrow> NaN | Some x \<Rightarrow> x)"

section \<open>Constants and helpers of App.tsx\<close>

definition SECONDS_IN_MINUTE :: jsnum where
  "SECONDS_IN_MINUTE = Fin 60"

definition DEFAULT_ALLOWED_FLOW_LENGTH :: jsnum where
  "DEFAULT_ALLOWED_FLOW_LENGTH = Fin 60"

text \<open>\<^verbatim>\<open>getTimeStamp = () => Date.now() / 1000\<close>; the argument is the clock reading
  \<^verbatim>\<open>Date.now()\<close>, an integer number of milliseconds. The quotient is stored, so it is
  the double. A clock reading is a time value, which \<open>clock_in_range\<close> says.\<close>

definition getTimeStamp :: "int \<Rightarrow> jsnum" where
  "getTimeStamp clock = to_double (js_div (Fin (of_int clock)) (Fin 1000))"

definition clock_in_range :: "int \<Rightarrow> bool" where
  "clock_in_range clock = (\<bar>clock\<bar> \<le> 8640000000000000)"

definition secondsToMinutes :: "jsnum \<Rightarrow> jsnum" where
  "secondsToMinutes seconds = Math_round (js_div seconds SECONDS_IN_MINUTE)"

definition getOffset :: "jsnum \<Rightarrow> jsnum \<Rightarrow> jsnum \<Rightarrow> jsnum" where
  "getOffset startT endT totalTime = js_mul (js_div (js_sub endT startT) totalTime) (Fin 100)"

section \<open>Time formatting\<close>

text \<open>
  A \<^verbatim>\<open>Date\<close> is its time value: an integer number of milliseconds, or NaN (here
  \<open>None\<close>) for an invalid date. \<^verbatim>\<open>new Date(v)\<close> truncates a finite \<open>v\<close> towards zero
  and rejects what lies outside the range of time values. The host's time zone is the
  parameter \<open>localTime\<close>, which maps a time value to local milliseconds.
\<close>

definition js_trunc :: "rat \<Rightarrow> int" where
  "js_trunc x = (if 0 \<le> x then \<lfloor>x\<rfloor> else \<lceil>x\<rceil>)"

definition new_Date :: "jsnum \<Rightarrow> int option" where
  "new_Date v =
     (case v of
        Fin x \<Rightarrow> if \<bar>x\<bar> \<le> 8640000000000000 then Some (js_trunc x) else None
      | _ \<Rightarrow> None)"

definition getHours :: "(int \<Rightarrow> int) \<Rightarrow> int option \<Rightarrow> int option" where
  "getHours localTime d = map_option (\<lambda>t. (localTime t div 3600000) mod 24) d"

definition getMinutes :: "(int \<Rightarrow> int) \<Rightarrow> int option \<Rightarrow> int option" where
  "getMinutes localTime d = map_option (\<lambda>t. (localTime t div 60000) mod 60) d"

text \<open>
  The hour and the minute are integers or NaN. The operators used on them: \<^verbatim>\<open>>=\<close>,
  \<^verbatim>\<open><\<close> and \<^verbatim>\<open>==\<close> are false on NaN; \<^verbatim>\<open>%\<close> takes the sign of the dividend.
\<close>

definition int_ge :: "int option \<Rightarrow> int \<Rightarrow> bool" where
  "int_ge a b = (case a of None \<Rightarrow> False | Some x \<Rightarrow> b \<le> x)"

definition int_lt :: "int option \<Rightarrow> int \<Rightarrow> bool" where
  "int_lt a b = (case a of None \<Rightarrow> False | Some x \<Rightarrow> x < b)"

definition int_eq :: "int option \<Rightarrow> int \<Rightarrow> bool" where
  "int_eq a b = (case a of None \<Rightarrow> False | Some x \<Rightarrow> x = b)"

definition int_rem :: "int option \<Rightarrow> int \<Rightarrow> int option" where
  "int_rem a b =
     (case a of None \<Rightarrow> None
      | Some x \<Rightarrow> if b = 0 then None else Some (sgn x * (\<bar>x\<bar> mod \<bar>b\<bar>)))"

definition digit :: "nat \<Rightarrow> char" where
  "digit n = ''0123456789'' ! n"

fun string_of_nat :: "nat \<Rightarrow> string" where
  "string_of_nat n =
     (if n < 10 then [digit n] else string_of_nat (n div 10) @ [digit (n mod 10)])"

declare string_of_nat.simps [simp del]

text \<open>The string of an integer or NaN, as string concatenation produces it.\<close>

definition Number_toString :: "int option \<Rightarrow> string" where
  "Number_toString a =
     (case a of
        None \<Rightarrow> ''NaN''
      | Some x \<Rightarrow> if x < 0 then ''-'' @ string_of_nat (nat (- x)) else string_of_nat (nat x))"

definition displayTimeStamp :: "(int \<Rightarrow> int) \<Rightarrow> jsnum \<Rightarrow> string" where
  "displayTimeStamp localTime time =
     (let timeStamp = new_Date (js_mul time (Fin 1000));
          hours = getHours localTime timeStamp;
          minutes = getMinutes localTime timeStamp;
          ampm = (if int_ge hours 12 then ''pm'' else ''am'');
          formattedHours = int_rem hours 12;
          formattedHours = (if int_eq hours 0 then Some 12 else formattedHours);
          formattedMinutes =
            (if int_lt minutes 10 then ''0'' @ Number_toString minutes
             else Number_toString minutes)
      in Number_toString formattedHours @ '':'' @ formattedMinutes @ ampm)"

section \<open>The data model\<close>

datatype FlowState = Start | FlowPrompt | InFlow | FlowSummary

text \<open>
  An \<^verbatim>\<open>IFlowItem\<close> as the program builds it: a JavaScript object whose properties may be
  missing. \<^verbatim>\<open>startFlow\<close> creates one without \<^verbatim>\<open>endTime\<close>, and \<^verbatim>\<open>endFlow\<close>
  stores the object \<^verbatim>\<open>{}\<close>, which has none of the three.
\<close>

record IFlowItem =
  name :: "string option"
  startTime :: "jsnum option"
  endTime :: "jsnum option"

text \<open>
  The component's state. Its \<^verbatim>\<open>startTime\<close> and \<^verbatim>\<open>endTime\<close> carry the prefix
  \<open>state_\<close>, the names being taken by the fields of \<open>IFlowItem\<close>. \<open>currentFlow\<close> is
  \<open>None\<close> for \<^verbatim>\<open>null\<close>. \<open>filterFlowLength\<close> holds the number that the stored value
  denotes: the slider handler stores the input's value, a numeric string, and the only
  use of the field in a computation converts it to that number.
\<close>

record AppState =
  state_startTime :: jsnum
  state_endTime :: jsnum
  flowInput :: string
  currentFlow :: "IFlowItem option"
  flowState :: FlowState
  flows :: "IFlowItem list"
  inTransition :: bool
  transitionTime :: jsnum
  filterFlowLength :: jsnum

definition DEFAULT_STATE :: AppState where
  "DEFAULT_STATE =
     \<lparr>state_startTime = Fin 0, state_endTime = Fin 0, flowInput = [],
      currentFlow = None, flowState = Start, flows = [], inTransition = False,
      transitionTime = Fin 0, filterFlowLength = DEFAULT_ALLOWED_FLOW_LENGTH\<rparr>"

definition empty_object :: IFlowItem where
  "empty_object = \<lparr>name = None, startTime = None, endTime = None\<rparr>"

text \<open>
  \<open>falsy\<close> is the operator \<^verbatim>\<open>!\<close> on a name: true of a missing name and of the empty
  string. \<open>flow_active\<close> is the guard of \<^verbatim>\<open>endFlow\<close>,
  \<^verbatim>\<open>!currentFlow || !currentFlow.name\<close>, negated: there is a current flow object and its
  name is a non-empty string.
\<close>

definition falsy :: "string option \<Rightarrow> bool" where
  "falsy v = (case v of None \<Rightarrow> True | Some t \<Rightarrow> t = [])"

definition flow_active :: "IFlowItem option \<Rightarrow> bool" where
  "flow_active cf = (case cf of None \<Rightarrow> False | Some f \<Rightarrow> \<not> falsy (name f))"

section \<open>Persistence\<close>

text \<open>
  The stored blob is the JSON text of the state. \<^verbatim>\<open>JSON.stringify\<close> and
  \<^verbatim>\<open>JSON.parse\<close> belong to the host; the text is represented by the JSON value it
  denotes. What \<^verbatim>\<open>JSON.stringify\<close> does to the values of a state is written out: a
  number that is not finite becomes \<^verbatim>\<open>null\<close>, a missing property is left out, a
  member of the enum \<open>FlowState\<close> is its index.
\<close>

datatype json =
  JNull | JBool bool | JNum rat | JStr string | JArr "json list" | JObj "(string \<times> json) list"

definition JSON_number :: "jsnum \<Rightarrow> json" where
  "JSON_number x = (case x of Fin r \<Rightarrow> JNum r | _ \<Rightarrow> JNull)"

definition property :: "string \<Rightarrow> json option \<Rightarrow> (string \<times> json) list" where
  "property k v = (case v of None \<Rightarrow> [] | Some j \<Rightarrow> [(k, j)])"

definition IFlowItem_json :: "IFlowItem \<Rightarrow> json" where
  "IFlowItem_json f =
     JObj (property ''name'' (map_option JStr (name f)) @
           property ''startTime'' (map_option JSON_number (startTime f)) @
           property ''endTime'' (map_option JSON_number (endTime f)))"

fun FlowState_index :: "FlowState \<Rightarrow> nat" where
  "FlowState_index Start = 0"
| "FlowState_index FlowPrompt = 1"
| "FlowState_index InFlow = 2"
| "FlowState_index FlowSummary = 3"

definition JSON_stringify :: "AppState \<Rightarrow> json" where
  "JSON_stringify s =
     JObj [(''startTime'', JSON_number (state_startTime s)),
           (''endTime'', JSON_number (state_endTime s)),
           (''flowInput'', JStr (flowInput s)),
           (''currentFlow'', (case currentFlow s of None \<Rightarrow> JNull | Some f \<Rightarrow> IFlowItem_json f)),
           (''flowState'', JNum (of_nat (FlowState_index (flowState s)))),
           (''flows'', JArr (map IFlowItem_json (flows s))),
           (''inTransition'', JBool (inTransition s)),
           (''transitionTime'', JSON_number (transitionTime s)),
           (''filterFlowLength'', JSON_number (filterFlowLength s))]"

text \<open>
  The constructor assigns to the state whatever \<^verbatim>\<open>JSON.parse\<close> returns. The functions
  below read a JSON value as a state of the typed model; the result is \<open>None\<close> for a
  value that is no such state (a \<^verbatim>\<open>null\<close> where a number stands, a missing field).
  When a key occurs twice, the later one counts.
\<close>

definition member :: "string \<Rightarrow> (string \<times> json) list \<Rightarrow> json option" where
  "member k kvs = map_of (rev kvs) k"

definition number_of_json :: "json \<Rightarrow> jsnum option" where
  "number_of_json j = (case j of JNum r \<Rightarrow> Some (Fin r) | _ \<Rightarrow> None)"

definition string_of_json :: "json \<Rightarrow> string option" where
  "string_of_json j = (case j of JStr t \<Rightarrow> Some t | _ \<Rightarrow> None)"

definition bool_of_json :: "json \<Rightarrow> bool option" where
  "bool_of_json j = (case j of JBool b \<Rightarrow> Some b | _ \<Rightarrow> None)"

definition FlowState_of_json :: "json \<Rightarrow> FlowState option" where
  "FlowState_of_json j =
     (case j of
        JNum r \<Rightarrow>
          if r = 0 then Some Start else if r = 1 then Some FlowPrompt
          else if r = 2 then Some InFlow else if r = 3 then Some FlowSummary else None
      | _ \<Rightarrow> None)"

definition optional :: "(json \<Rightarrow> 'a option) \<Rightarrow> json option \<Rightarrow> 'a option option" where
  "optional rd v = (case v of None \<Rightarrow> Some None | Some j \<Rightarrow> map_option Some (rd j))"

definition required :: "(json \<Rightarrow> 'a option) \<Rightarrow> json option \<Rightarrow> 'a option" where
  "required rd v = (case v of None \<Rightarrow> None | Some j \<Rightarrow> rd j)"

definition IFlowItem_of_json :: "json \<Rightarrow> IFlowItem option" where
  "IFlowItem_of_json j =
     (case j of
        JObj kvs \<Rightarrow>
          do {
            n \<leftarrow> optional string_of_json (member ''name'' kvs);
            st \<leftarrow> optional number_of_json (member ''startTime'' kvs);
            en \<leftarrow> optional number_of_json (member ''endTime'' kvs);
            Some \<lparr>name = n, startTime = st, endTime = en\<rparr>
          }
      | _ \<Rightarrow> None)"

definition currentFlow_of_json :: "json \<Rightarrow> IFlowItem option option" where
  "currentFlow_of_json j =
     (case j of JNull \<Rightarrow> Some None | _ \<Rightarrow> map_option Some (IFlowItem_of_json j))"

definition flows_of_json :: "json \<Rightarrow> IFlowItem list option" where
  "flows_of_json j =
     (case j of JArr js \<Rightarrow> those (map IFlowItem_of_json js) | _ \<Rightarrow> None)"

definition AppState_of_json :: "json \<Rightarrow> AppState option" where
  "AppState_of_json j =
     (case j of
        JObj kvs \<Rightarrow>
          do {
            st \<leftarrow> required number_of_json (member ''startTime'' kvs);
            en \<leftarrow> required number_of_json (member ''endTime'' kvs);
            fi \<leftarrow> required string_of_json (member ''flowInput'' kvs);
            cf \<leftarrow> required currentFlow_of_json (member ''currentFlow'' kvs);
            fs \<leftarrow> required FlowState_of_json (member ''flowState'' kvs);
            fl \<leftarrow> required flows_of_json (member ''flows'' kvs);
            tr \<leftarrow> required bool_of_json (member ''inTransition'' kvs);
            tt \<leftarrow> required number_of_json (member ''transitionTime'' kvs);
            ff \<leftarrow> required number_of_json (member ''filterFlowLength'' kvs);
            Some \<lparr>state_startTime = st, state_endTime = en, flowInput = fi, currentFlow = cf,
                  flowState = fs, flows = fl, inTransition = tr, transitionTime = tt,
                  filterFlowLength = ff\<rparr>
          }
      | _ \<Rightarrow> None)"

text \<open>
  A snapshot whose numbers are all finite. Every number that the handlers store is a
  clock reading divided by 1000 or a constant, so the states of a session are of this
  kind.
\<close>

definition finite_or_missing :: "jsnum option \<Rightarrow> bool" where
  "finite_or_missing v = (case v of None \<Rightarrow> True | Some x \<Rightarrow> is_finite x)"

definition valid_item :: "IFlowItem \<Rightarrow> bool" where
  "valid_item f = (finite_or_missing (startTime f) \<and> finite_or_missing (endTime f))"

definition valid_snapshot :: "AppState \<Rightarrow> bool" where
  "valid_snapshot s =
     (is_finite (state_startTime s) \<and> is_finite (state_endTime s) \<and>
      is_finite (transitionTime s) \<and> is_finite (filterFlowLength s) \<and>
      (case currentFlow s of None \<Rightarrow> True | Some f \<Rightarrow> valid_item f) \<and>
      list_all valid_item (flows s))"

section \<open>The component and its environment\<close>

text \<open>
  Besides the React state, the world holds what the handlers reach outside it: whether
  Web Storage exists (\<^verbatim>\<open>typeof Storage !== "undefined"\<close>), the item \<^verbatim>\<open>"state"\<close> of
  \<^verbatim>\<open>localStorage\<close> (\<open>None\<close> when there is none), and the callbacks that \<^verbatim>\<open>setTimeout\<close>
  has scheduled and that have not run yet, each with the arguments \<open>nextState\<close> and
  \<open>saveState\<close> of the \<^verbatim>\<open>doTranistion\<close> call that made it.
\<close>

record World =
  state :: AppState
  hasStorage :: bool
  localStorage :: "json option"
  timers :: "(FlowState \<times> bool) list"

definition saveStateToLocal :: "World \<Rightarrow> World" where
  "saveStateToLocal w =
     (if hasStorage w then w\<lparr>localStorage := Some (JSON_stringify (state w))\<rparr> else w)"

text \<open>
  The constructor: the default state, replaced by the stored one when storage exists,
  the item is there and the user answers the \<^verbatim>\<open>confirm\<close> dialogue with yes
  (\<open>loadLocalState\<close>). The JSON text of a value is never the empty string, so the test of
  the item's length adds nothing for an item that \<open>saveStateToLocal\<close> wrote.
\<close>

definition constructor :: "bool \<Rightarrow> json option \<Rightarrow> bool \<Rightarrow> AppState option" where
  "constructor storageDefined localStateString loadLocalState =
     (if \<not> storageDefined then Some DEFAULT_STATE
      else case localStateString of
             None \<Rightarrow> Some DEFAULT_STATE
           | Some j \<Rightarrow> if loadLocalState then AppState_of_json j else Some DEFAULT_STATE)"

text \<open>
  Inside an event handler React collects the calls of \<^verbatim>\<open>setState\<close>: \<^verbatim>\<open>this.state\<close>
  keeps its value until the handler returns, the partial states are merged in order,
  and the callbacks run after the merged state is in place. A \<open>Batch\<close> is a handler in
  progress.
\<close>

datatype callback = SaveStateToLocal | ClearLocalStorage

record Batch =
  this_state :: AppState
  next_state :: AppState
  callbacks :: "callback list"
  scheduled :: "(FlowState \<times> bool) list"

definition setState :: "(AppState \<Rightarrow> AppState) \<Rightarrow> callback list \<Rightarrow> Batch \<Rightarrow> Batch" where
  "setState partial cb b =
     b\<lparr>next_state := partial (next_state b), callbacks := callbacks b @ cb\<rparr>"

definition run_callback :: "World \<Rightarrow> callback \<Rightarrow> World" where
  "run_callback w cb =
     (case cb of
        SaveStateToLocal \<Rightarrow> saveStateToLocal w
      | ClearLocalStorage \<Rightarrow> if hasStorage w then w\<lparr>localStorage := None\<rparr> else w)"

definition dispatch :: "(Batch \<Rightarrow> Batch) \<Rightarrow> World \<Rightarrow> World" where
  "dispatch handler w =
     (let b = handler \<lparr>this_state = state w, next_state = state w, callbacks = [],
                       scheduled = []\<rparr>
      in foldl run_callback (w\<lparr>state := next_state b, timers := timers w @ scheduled b\<rparr>)
           (callbacks b))"

definition doTranistion :: "FlowState \<Rightarrow> jsnum \<Rightarrow> bool \<Rightarrow> Batch \<Rightarrow> Batch" where
  "doTranistion nextState transTime saveState b =
     (let b' = setState (\<lambda>s. s\<lparr>inTransition := True, transitionTime := transTime\<rparr>) [] b
      in b'\<lparr>scheduled := scheduled b' @ [(nextState, saveState)]\<rparr>)"

text \<open>The callback of \<^verbatim>\<open>setTimeout\<close> in \<^verbatim>\<open>doTranistion\<close>; it runs outside a handler.\<close>

definition transitionTimeout :: "FlowState \<times> bool \<Rightarrow> World \<Rightarrow> World" where
  "transitionTimeout t w =
     (let w' = w\<lparr>state := (state w)\<lparr>flowState := fst t, inTransition := False\<rparr>\<rparr>
      in if snd t then saveStateToLocal w' else w')"

definition handleStartClick :: "int \<Rightarrow> Batch \<Rightarrow> Batch" where
  "handleStartClick clock b =
     doTranistion FlowPrompt (Fin 500) True
       (setState (\<lambda>s. s\<lparr>state_startTime := getTimeStamp clock\<rparr>) [] b)"

definition handleFlowInputChange :: "string \<Rightarrow> Batch \<Rightarrow> Batch" where
  "handleFlowInputChange v b = setState (\<lambda>s. s\<lparr>flowInput := v\<rparr>) [SaveStateToLocal] b"

definition startFlow :: "int \<Rightarrow> string \<Rightarrow> Batch \<Rightarrow> Batch" where
  "startFlow clock taskName b =
     (let flow = \<lparr>name = Some taskName, startTime = Some (getTimeStamp clock), endTime = None\<rparr>
      in setState (\<lambda>s. s\<lparr>currentFlow := Some flow\<rparr>) [SaveStateToLocal] b)"

definition handleFlowSubmit :: "int \<Rightarrow> Batch \<Rightarrow> Batch" where
  "handleFlowSubmit clock b =
     (let inputFlow = flowInput (this_state b)
      in if length inputFlow = 0 then b
         else doTranistion InFlow (Fin 500) True (startFlow clock inputFlow b))"

definition endFlow :: "int \<Rightarrow> Batch \<Rightarrow> Batch" where
  "endFlow clock b =
     (case currentFlow (this_state b) of
        None \<Rightarrow> b
      | Some cf \<Rightarrow>
          if falsy (name cf) then b
          else
            let flow = cf\<lparr>endTime := Some (getTimeStamp clock)\<rparr>
            in setState
                 (\<lambda>s. s\<lparr>currentFlow := Some empty_object, flows := flows (this_state b) @ [flow]\<rparr>)
                 [SaveStateToLocal] b)"

definition handlePauseFlowClick :: "int \<Rightarrow> Batch \<Rightarrow> Batch" where
  "handlePauseFlowClick clock b = doTranistion FlowPrompt (Fin 0) True (endFlow clock b)"

text \<open>\<^verbatim>\<open>handleEndClick\<close> reads the clock twice, in \<^verbatim>\<open>endFlow\<close> and for \<^verbatim>\<open>endTime\<close>.\<close>

definition handleEndClick :: "int \<Rightarrow> int \<Rightarrow> Batch \<Rightarrow> Batch" where
  "handleEndClick clock clock' b =
     doTranistion FlowSummary (Fin 500) False
       (setState (\<lambda>s. s\<lparr>state_endTime := getTimeStamp clock'\<rparr>) [ClearLocalStorage]
          (endFlow clock b))"

definition handleSliderChange :: "jsnum \<Rightarrow> Batch \<Rightarrow> Batch" where
  "handleSliderChange v b = setState (\<lambda>s. s\<lparr>filterFlowLength := v\<rparr>) [] b"

definition handleResetClick :: "Batch \<Rightarrow> Batch" where
  "handleResetClick b = setState (\<lambda>s. DEFAULT_STATE) [] b"

text \<open>The events of a session, and the world after one of them.\<close>

datatype Event =
    StartClick int
  | FlowInputChange string
  | FlowSubmit int
  | PauseFlowClick int
  | EndClick int int
  | SliderChange jsnum
  | ResetClick
  | TimerFires nat

fun step :: "World \<Rightarrow> Event \<Rightarrow> World" where
  "step w (StartClick clock) = dispatch (handleStartClick clock) w"
| "step w (FlowInputChange v) = dispatch (handleFlowInputChange v) w"
| "step w (FlowSubmit clock) = dispatch (handleFlowSubmit clock) w"
| "step w (PauseFlowClick clock) = dispatch (handlePauseFlowClick clock) w"
| "step w (EndClick clock clock') = dispatch (handleEndClick clock clock') w"
| "step w (SliderChange v) = dispatch (handleSliderChange v) w"
| "step w ResetClick = dispatch handleResetClick w"
| "step w (TimerFires i) =
     (if i < length (timers w)
      then transitionTimeout (timers w ! i) (w\<lparr>timers := take i (timers w) @ drop (Suc i) (timers w)\<rparr>)
      else w)"

text \<open>
  What \<^verbatim>\<open>render\<close> offers: a handler can be triggered only while the element that
  carries it is on the screen, which depends on \<open>flowState\<close>.
\<close>

fun rendered :: "World \<Rightarrow> Event \<Rightarrow> bool" where
  "rendered w (StartClick _) = (flowState (state w) = Start)"
| "rendered w (FlowInputChange _) = (flowState (state w) = FlowPrompt)"
| "rendered w (FlowSubmit _) = (flowState (state w) = FlowPrompt)"
| "rendered w (PauseFlowClick _) = (flowState (state w) = InFlow)"
| "rendered w (EndClick _ _) = (flowState (state w) \<noteq> Start \<and> flowState (state w) \<noteq> FlowSummary)"
| "rendered w (SliderChange _) = (flowState (state w) = FlowSummary)"
| "rendered w ResetClick = (flowState (state w) = FlowSummary)"
| "rendered w (TimerFires i) = (i < length (timers w))"

text \<open>A run of events from a world; \<open>None\<close> when an event is not on offer where it occurs.\<close>

fun run :: "World \<Rightarrow> Event list \<Rightarrow> World option" where
  "run w [] = Some w"
| "run w (e # es) = (if rendered w e then run (step w e) es else None)"

text \<open>
  An event whose clock readings are time values and whose slider value is finite.
\<close>

fun event_in_range :: "Event \<Rightarrow> bool" where
  "event_in_range (StartClick clock) = clock_in_range clock"
| "event_in_range (FlowSubmit clock) = clock_in_range clock"
| "event_in_range (PauseFlowClick clock) = clock_in_range clock"
| "event_in_range (EndClick clock clock') = (clock_in_range clock \<and> clock_in_range clock')"
| "event_in_range (SliderChange v) = is_finite v"
| "event_in_range e = True"

definition initial :: World where
  "initial = \<lparr>state = DEFAULT_STATE, hasStorage = True, localStorage = None, timers = []\<rparr>"

section \<open>The summary\<close>

record IFlowItemProps =
  leftOffset :: jsnum
  rightOffset :: jsnum
  taskName :: "string option"
  minutesOnFlow :: jsnum
  isTotal :: "bool option"

text \<open>
  What the component \<^verbatim>\<open>FlowSummary\<close> computes: the two clock labels, the props of the
  "Total Time" item, and for every flow of the list, in order, the props of its item or
  \<open>None\<close> where the callback of \<^verbatim>\<open>map\<close> returns nothing.
\<close>

record SummaryView =
  timeEnds :: "string \<times> string"
  totalItem :: IFlowItemProps
  flowItems :: "IFlowItemProps option list"

definition FlowSummary_item :: "AppState \<Rightarrow> IFlowItem \<Rightarrow> IFlowItemProps option" where
  "FlowSummary_item s flow =
     (let dayStart = state_startTime s;
          dayEnd = state_endTime s;
          totalTime = js_sub dayEnd dayStart;
          flowTime = to_double (js_sub (ToNumber (endTime flow)) (ToNumber (startTime flow)))
      in if js_lt flowTime (to_double (js_mul (filterFlowLength s) SECONDS_IN_MINUTE)) then None
         else Some \<lparr>leftOffset = getOffset dayStart (ToNumber (startTime flow)) totalTime,
                    rightOffset = getOffset (ToNumber (endTime flow)) dayEnd totalTime,
                    taskName = name flow,
                    minutesOnFlow = secondsToMinutes flowTime,
                    isTotal = None\<rparr>)"

definition FlowSummary_component :: "(int \<Rightarrow> int) \<Rightarrow> AppState \<Rightarrow> SummaryView" where
  "FlowSummary_component localTime s =
     (let dayStart = state_startTime s;
          dayEnd = state_endTime s;
          totalTime = js_sub dayEnd dayStart
      in \<lparr>timeEnds = (displayTimeStamp localTime dayStart, displayTimeStamp localTime dayEnd),
          totalItem = \<lparr>leftOffset = Fin 0, rightOffset = Fin 0, taskName = Some ''Total Time'',
                       minutesOnFlow = secondsToMinutes totalTime, isTotal = Some True\<rparr>,
          flowItems = map (FlowSummary_item s) (flows s)\<rparr>)"

section \<open>Properties of the helpers and of the summary\<close>

lemma getOffset_finite:
  "t \<noteq> 0 \<Longrightarrow> getOffset (Fin a) (Fin b) (Fin t) = Fin ((b - a) / t * 100)"
  by (simp add: getOffset_def)

lemma getOffset_zero_total: "\<not> is_finite (getOffset x y (Fin 0))"
proof -
  have "\<not> is_finite (js_mul (js_div v (Fin 0)) (Fin 100))" for v
    by (cases v) (simp_all add: is_finite_def inf_of_sign_def)
  then show ?thesis by (simp add: getOffset_def)
qed

lemma FlowSummary_item_None:
  "(FlowSummary_item s flow = None) =
     js_lt (to_double (js_sub (ToNumber (endTime flow)) (ToNumber (startTime flow))))
           (to_double (js_mul (filterFlowLength s) SECONDS_IN_MINUTE))"
  by (simp add: FlowSummary_item_def Let_def)

lemma round_double_3600: "round_double 3600 = Fin 3600"
  by code_simp

lemma round_double_3599: "round_double 3599 = Fin 3599"
  by code_simp

text \<open>
  Rounding at work: one tenth is not a double; above \<open>2 ^ 53\<close> the doubles are the
  even integers and a tie goes to the even significand.
\<close>

lemma round_double_examples:
  "round_double (1 / 10) = Fin (3602879701896397 / 36028797018963968)"
  "round_double (2 ^ 53 + 1) = Fin (2 ^ 53)"
  "round_double (2 ^ 53 + 3) = Fin (2 ^ 53 + 4)"
  "round_double (- (99 / 10)) = Fin (- (5573204538870989 / 562949953421312))"
  by code_simp+

lemma flowItems_nth:
  "i < length (flows s) \<Longrightarrow>
   flowItems (FlowSummary_component localTime s) ! i = FlowSummary_item s (flows s ! i)"
  by (simp add: FlowSummary_component_def Let_def)

text \<open>
  C7. \<open>secondsToMinutes\<close> is \<open>round(seconds / 60)\<close>: the result is the integer
  \<open>\<lfloor>s / 60 + 1/2\<rfloor>\<close>, which lies within half a minute of \<open>s / 60\<close> and is the upper
  neighbour at a tie. 90 seconds are 2 minutes, 89 seconds are 1 minute.
\<close>

theorem secondsToMinutes_rounds_half_up:
  "secondsToMinutes (Fin s) = Fin (of_int \<lfloor>s / 60 + 1 / 2\<rfloor>)
   \<and> (\<exists>m. secondsToMinutes (Fin s) = Fin (of_int m)
          \<and> s / 60 - 1 / 2 < of_int m \<and> of_int m \<le> s / 60 + 1 / 2)
   \<and> secondsToMinutes (Fin 90) = Fin 2
   \<and> secondsToMinutes (Fin 89) = Fin 1"
proof -
  have eq: "secondsToMinutes (Fin s) = Fin (of_int \<lfloor>s / 60 + 1 / 2\<rfloor>)"
    by (simp add: secondsToMinutes_def SECONDS_IN_MINUTE_def)
  have lo: "s / 60 - 1 / 2 < of_int \<lfloor>s / 60 + 1 / 2\<rfloor>"
    by linarith
  have hi: "of_int \<lfloor>s / 60 + 1 / 2\<rfloor> \<le> s / 60 + 1 / 2"
    by (rule of_int_floor_le)
  have m90: "secondsToMinutes (Fin 90) = Fin 2"
    by (simp add: secondsToMinutes_def SECONDS_IN_MINUTE_def)
  have m89: "secondsToMinutes (Fin 89) = Fin 1"
    by (simp add: secondsToMinutes_def SECONDS_IN_MINUTE_def floor_eq_iff)
  from eq lo hi m90 m89 show ?thesis by blast
qed

text \<open>
  C5. The callback of \<open>map\<close> in the summary returns nothing for a flow exactly when
  its duration in seconds is less than \<open>filterFlowLength * 60\<close>, with the strict
  \<^verbatim>\<open><\<close>; the list of items is that callback mapped over the flows. The duration is
  the difference of the two time stamps as the program holds it, a double: for finite
  numbers, with \<open>d\<close> the double of \<open>b - a\<close> and \<open>t\<close> the double of \<open>m * 60\<close>, the flow is
  left out exactly when \<open>d < t\<close>. At 60 minutes a flow whose duration is 3600 seconds is
  kept and one whose duration is 3599 seconds is left out.
\<close>

theorem summary_filter_strict:
  "flowItems (FlowSummary_component localTime s) = map (FlowSummary_item s) (flows s)
   \<and> (FlowSummary_item s flow = None) =
       js_lt (to_double (js_sub (ToNumber (endTime flow)) (ToNumber (startTime flow))))
             (to_double (js_mul (filterFlowLength s) SECONDS_IN_MINUTE))
   \<and> (\<forall>d t. round_double (b - a) = Fin d \<and> round_double (m * 60) = Fin t \<longrightarrow>
         (FlowSummary_item (s\<lparr>filterFlowLength := Fin m\<rparr>)
            \<lparr>name = n, startTime = Some (Fin a), endTime = Some (Fin b)\<rparr> = None)
         = (d < t))
   \<and> (round_double (b - a) = Fin 3600 \<longrightarrow>
         FlowSummary_item (s\<lparr>filterFlowLength := Fin 60\<rparr>)
            \<lparr>name = n, startTime = Some (Fin a), endTime = Some (Fin b)\<rparr> \<noteq> None)
   \<and> (round_double (b - a) = Fin 3599 \<longrightarrow>
         FlowSummary_item (s\<lparr>filterFlowLength := Fin 60\<rparr>)
            \<lparr>name = n, startTime = Some (Fin a), endTime = Some (Fin b)\<rparr> = None)
   \<and> FlowSummary_item (s\<lparr>filterFlowLength := Fin 60\<rparr>)
         \<lparr>name = n, startTime = Some (Fin a), endTime = Some (Fin (a + 3600))\<rparr> \<noteq> None
   \<and> FlowSummary_item (s\<lparr>filterFlowLength := Fin 60\<rparr>)
         \<lparr>name = n, startTime = Some (Fin a), endTime = Some (Fin (a + 3599))\<rparr> = None"
proof -
  have items: "flowItems (FlowSummary_component localTime s) = map (FlowSummary_item s) (flows s)"
    by (simp add: FlowSummary_component_def Let_def)
  have fin: "(FlowSummary_item (s\<lparr>filterFlowLength := Fin m'\<rparr>)
         \<lparr>name = n, startTime = Some (Fin a), endTime = Some (Fin b')\<rparr> = None)
       = (d < t)"
    if "round_double (b' - a) = Fin d" and "round_double (m' * 60) = Fin t" for m' b' d t
    by (simp add: FlowSummary_item_None ToNumber_def SECONDS_IN_MINUTE_def to_double_def that)
  have sixty: "round_double (60 * 60) = Fin 3600"
    using round_double_3600 by simp
  have kept: "FlowSummary_item (s\<lparr>filterFlowLength := Fin 60\<rparr>)
         \<lparr>name = n, startTime = Some (Fin a), endTime = Some (Fin b')\<rparr> \<noteq> None"
    if "round_double (b' - a) = Fin 3600" for b'
    using fin [OF that sixty] by simp
  have dropped: "FlowSummary_item (s\<lparr>filterFlowLength := Fin 60\<rparr>)
         \<lparr>name = n, startTime = Some (Fin a), endTime = Some (Fin b')\<rparr> = None"
    if "round_double (b' - a) = Fin 3599" for b'
    using fin [OF that sixty] by simp
  have kept': "FlowSummary_item (s\<lparr>filterFlowLength := Fin 60\<rparr>)
         \<lparr>name = n, startTime = Some (Fin a), endTime = Some (Fin (a + 3600))\<rparr> \<noteq> None"
    by (rule kept) (simp add: round_double_3600)
  have dropped': "FlowSummary_item (s\<lparr>filterFlowLength := Fin 60\<rparr>)
         \<lparr>name = n, startTime = Some (Fin a), endTime = Some (Fin (a + 3599))\<rparr> = None"
    by (rule dropped) (simp add: round_double_3599)
  from items FlowSummary_item_None [of s flow] fin [of b _ m] kept [of b] dropped [of b]
    kept' dropped'
  show ?thesis by blast
qed

text \<open>
  The time stamps 94.564 and 3694.564, as doubles, are 3600 seconds apart for the
  program, although their exact difference is a little less; the flow between them is
  kept at 60 minutes. A flow from 0 to 3599 is left out.
\<close>

theorem summary_filter_strict_witness:
  "round_double (8124432155125219 / 2199023255552 - 3327174962208309 / 35184372088832)
     = Fin 3600
   \<and> 8124432155125219 / 2199023255552 - 3327174962208309 / 35184372088832 < (3600 :: rat)
   \<and> round_double (60 * 60) = Fin 3600
   \<and> FlowSummary_item (DEFAULT_STATE\<lparr>filterFlowLength := Fin 60\<rparr>)
        \<lparr>name = Some ''task'', startTime = Some (Fin (3327174962208309 / 35184372088832)),
         endTime = Some (Fin (8124432155125219 / 2199023255552))\<rparr> \<noteq> None
   \<and> round_double (3599 - 0) = Fin 3599
   \<and> FlowSummary_item (DEFAULT_STATE\<lparr>filterFlowLength := Fin 60\<rparr>)
        \<lparr>name = Some ''task'', startTime = Some (Fin 0), endTime = Some (Fin 3599)\<rparr> = None"
proof -
  have d: "round_double (8124432155125219 / 2199023255552 - 3327174962208309 / 35184372088832)
     = Fin 3600"
    by code_simp
  have l: "8124432155125219 / 2199023255552 - 3327174962208309 / 35184372088832 < (3600 :: rat)"
    by simp
  have t: "round_double (60 * 60) = Fin 3600"
    using round_double_3600 by simp
  have e: "round_double (3599 - 0) = Fin 3599"
    using round_double_3599 by simp
  from d summary_filter_strict
    [of "\<lambda>t. t" DEFAULT_STATE "\<lparr>name = None, startTime = None, endTime = None\<rparr>"
       "8124432155125219 / 2199023255552" "3327174962208309 / 35184372088832" 60 "Some ''task''"]
  have k: "FlowSummary_item (DEFAULT_STATE\<lparr>filterFlowLength := Fin 60\<rparr>)
        \<lparr>name = Some ''task'', startTime = Some (Fin (3327174962208309 / 35184372088832)),
         endTime = Some (Fin (8124432155125219 / 2199023255552))\<rparr> \<noteq> None"
    by blast
  from e summary_filter_strict
    [of "\<lambda>t. t" DEFAULT_STATE "\<lparr>name = None, startTime = None, endTime = None\<rparr>"
       3599 0 60 "Some ''task''"]
  have x: "FlowSummary_item (DEFAULT_STATE\<lparr>filterFlowLength := Fin 60\<rparr>)
        \<lparr>name = Some ''task'', startTime = Some (Fin 0), endTime = Some (Fin 3599)\<rparr> = None"
    by blast
  from d l t e k x show ?thesis
    by blast
qed

text \<open>
  C6. For a flow that the summary keeps, with finite times and a day of non-zero
  length, the left offset is \<open>(startTime - dayStart) / totalTime * 100\<close> and the right
  offset is \<open>(dayEnd - endTime) / totalTime * 100\<close>.
\<close>

theorem summary_offsets:
  assumes "i < length (flows s)"
    and "state_startTime s = Fin ds" and "state_endTime s = Fin de" and "de \<noteq> ds"
    and "startTime (flows s ! i) = Some (Fin fs)" and "endTime (flows s ! i) = Some (Fin fe)"
    and "flowItems (FlowSummary_component localTime s) ! i = Some p"
  shows "leftOffset p = Fin ((fs - ds) / (de - ds) * 100)
         \<and> rightOffset p = Fin ((de - fe) / (de - ds) * 100)"
proof -
  from assms(1,7) have item: "FlowSummary_item s (flows s ! i) = Some p"
    by (simp add: flowItems_nth)
  from assms(4) have nz: "de - ds \<noteq> 0"
    by simp
  from item have p: "leftOffset p = getOffset (Fin ds) (Fin fs) (Fin (de - ds))"
      "rightOffset p = getOffset (Fin fe) (Fin de) (Fin (de - ds))"
    by (auto simp add: FlowSummary_item_def Let_def assms(2,3,5,6) ToNumber_def
        split: if_splits)
  show ?thesis
    by (simp add: p getOffset_finite [OF nz])
qed

text \<open>
  The example of the claim: a day from 0 to 7200 and a flow from 1800 to 3600, kept
  under a filter of 30 minutes, has the offsets 25 and 50.
\<close>

theorem summary_offsets_witness:
  "flowItems (FlowSummary_component (\<lambda>t. t)
      (DEFAULT_STATE\<lparr>state_startTime := Fin 0, state_endTime := Fin 7200,
         filterFlowLength := Fin 30,
         flows := [\<lparr>name = Some ''task'', startTime = Some (Fin 1800),
                    endTime = Some (Fin 3600)\<rparr>]\<rparr>)) ! 0
     = Some \<lparr>leftOffset = Fin 25, rightOffset = Fin 50, taskName = Some ''task'',
             minutesOnFlow = Fin 30, isTotal = None\<rparr>
   \<and> Fin ((1800 - 0) / (7200 - 0) * 100) = Fin 25
   \<and> Fin ((7200 - 3600) / (7200 - 0) * 100) = Fin 50"
proof -
  let ?s = "DEFAULT_STATE\<lparr>state_startTime := Fin 0, state_endTime := Fin 7200,
         filterFlowLength := Fin 30,
         flows := [\<lparr>name = Some ''task'', startTime = Some (Fin 1800),
                    endTime = Some (Fin 3600)\<rparr>]\<rparr>"
  let ?p = "\<lparr>leftOffset = Fin 25, rightOffset = Fin 50, taskName = Some ''task'',
             minutesOnFlow = Fin 30, isTotal = None\<rparr>"
  have item: "flowItems (FlowSummary_component (\<lambda>t. t) ?s) ! 0 = Some ?p"
    by code_simp
  have "leftOffset ?p = Fin ((1800 - 0) / (7200 - 0) * 100)
        \<and> rightOffset ?p = Fin ((7200 - 3600) / (7200 - 0) * 100)"
    by (rule summary_offsets [of 0 ?s 0 7200 1800 3600 "\<lambda>t. t" ?p]) (simp_all add: item)
  with item show ?thesis by simp
qed

text \<open>
  C2, as the claim states it, fails: on a day of length zero the item of a kept flow has
  the offsets NaN, not 0.
\<close>

theorem zero_total_offsets_counterexample:
  "state_endTime (DEFAULT_STATE\<lparr>state_startTime := Fin 10, state_endTime := Fin 10\<rparr>)
     = state_startTime (DEFAULT_STATE\<lparr>state_startTime := Fin 10, state_endTime := Fin 10\<rparr>)
   \<and> flowItems (FlowSummary_component (\<lambda>t. t)
      (DEFAULT_STATE\<lparr>state_startTime := Fin 10, state_endTime := Fin 10,
         filterFlowLength := Fin 0,
         flows := [\<lparr>name = Some ''task'', startTime = Some (Fin 10),
                    endTime = Some (Fin 10)\<rparr>]\<rparr>))
     = [Some \<lparr>leftOffset = NaN, rightOffset = NaN, taskName = Some ''task'',
              minutesOnFlow = Fin 0, isTotal = None\<rparr>]
   \<and> NaN \<noteq> Fin 0"
  by code_simp

text \<open>
  C2, amended. There is no guard: when the day has length zero, both offsets of every
  item that the summary renders for a flow come out of the division by zero and are
  NaN or an infinity, never a finite number. For finite times the left offset is
  \<open>+\<infinity>\<close>, \<open>-\<infinity>\<close> or NaN as the flow starts after, before or at the start of the day.
  Only the item "Total Time" has the offsets 0, which it has on every day.
\<close>

theorem zero_total_offsets_not_finite:
  "(state_startTime s = Fin d \<and> state_endTime s = Fin d \<and> FlowSummary_item s flow = Some p \<longrightarrow>
      \<not> is_finite (leftOffset p) \<and> \<not> is_finite (rightOffset p)
      \<and> (\<forall>a. startTime flow = Some (Fin a) \<longrightarrow> leftOffset p = inf_of_sign (a - d)))
   \<and> leftOffset (totalItem (FlowSummary_component localTime s)) = Fin 0
   \<and> rightOffset (totalItem (FlowSummary_component localTime s)) = Fin 0"
proof -
  have zero: "\<not> is_finite (leftOffset p) \<and> \<not> is_finite (rightOffset p)
      \<and> (\<forall>a. startTime flow = Some (Fin a) \<longrightarrow> leftOffset p = inf_of_sign (a - d))"
    if day: "state_startTime s = Fin d" "state_endTime s = Fin d"
      and item: "FlowSummary_item s flow = Some p"
  proof -
    from item have left: "leftOffset p = getOffset (Fin d) (ToNumber (startTime flow)) (Fin 0)"
      and right: "rightOffset p = getOffset (ToNumber (endTime flow)) (Fin d) (Fin 0)"
      by (auto simp add: FlowSummary_item_def Let_def day split: if_splits)
    have "leftOffset p = inf_of_sign (a - d)" if "startTime flow = Some (Fin a)" for a
      by (simp add: left that ToNumber_def getOffset_def inf_of_sign_def)
    then show ?thesis
      by (simp add: left right getOffset_zero_total)
  qed
  have total: "leftOffset (totalItem (FlowSummary_component localTime s)) = Fin 0"
      "rightOffset (totalItem (FlowSummary_component localTime s)) = Fin 0"
    by (simp_all add: FlowSummary_component_def Let_def)
  from zero total show ?thesis
    by blast
qed

theorem zero_total_offsets_not_finite_witness:
  "FlowSummary_item
      (DEFAULT_STATE\<lparr>state_startTime := Fin 10, state_endTime := Fin 10,
         filterFlowLength := Fin 0\<rparr>)
      \<lparr>name = Some ''task'', startTime = Some (Fin 12), endTime = Some (Fin 15)\<rparr>
     = Some \<lparr>leftOffset = PInf, rightOffset = NInf, taskName = Some ''task'',
             minutesOnFlow = Fin 0, isTotal = None\<rparr>
   \<and> \<not> is_finite PInf \<and> \<not> is_finite NInf \<and> PInf = inf_of_sign (12 - 10)
   \<and> totalItem (FlowSummary_component (\<lambda>t. t)
        (DEFAULT_STATE\<lparr>state_startTime := Fin 10, state_endTime := Fin 10,
           filterFlowLength := Fin 0\<rparr>))
      = \<lparr>leftOffset = Fin 0, rightOffset = Fin 0, taskName = Some ''Total Time'',
         minutesOnFlow = Fin 0, isTotal = Some True\<rparr>"
proof -
  let ?s = "DEFAULT_STATE\<lparr>state_startTime := Fin 10, state_endTime := Fin 10,
         filterFlowLength := Fin 0\<rparr>"
  let ?f = "\<lparr>name = Some ''task'', startTime = Some (Fin 12), endTime = Some (Fin 15)\<rparr>"
  let ?p = "\<lparr>leftOffset = PInf, rightOffset = NInf, taskName = Some ''task'',
             minutesOnFlow = Fin 0, isTotal = None\<rparr>"
  have day: "state_startTime ?s = Fin 10 \<and> state_endTime ?s = Fin 10"
    by simp
  have item: "FlowSummary_item ?s ?f = Some ?p"
    by code_simp
  have total: "totalItem (FlowSummary_component (\<lambda>t. t) ?s)
      = \<lparr>leftOffset = Fin 0, rightOffset = Fin 0, taskName = Some ''Total Time'',
         minutesOnFlow = Fin 0, isTotal = Some True\<rparr>"
    by (simp add: FlowSummary_component_def Let_def secondsToMinutes_def SECONDS_IN_MINUTE_def
        floor_eq_iff)
  from zero_total_offsets_not_finite [of ?s 10 ?f ?p "\<lambda>t. t"] day item
  have "\<not> is_finite (leftOffset ?p) \<and> \<not> is_finite (rightOffset ?p)
        \<and> (\<forall>a. startTime ?f = Some (Fin a) \<longrightarrow> leftOffset ?p = inf_of_sign (a - 10))"
    by blast
  with item total show ?thesis
    by simp
qed

text \<open>
  C10. At a time whose local hour is 12 the function prints the hour 0: half past
  twelve at noon comes out as \<open>0:30pm\<close>. The test for the zero hour looks at \<open>hours\<close>,
  not at \<open>hours % 12\<close>, so it catches midnight only, which is printed as \<open>12:30am\<close>.
\<close>

theorem displayTimeStamp_noon:
  "displayTimeStamp (\<lambda>t. t) (Fin 45000) = ''0:30pm''
   \<and> displayTimeStamp (\<lambda>t. t) (Fin 1800) = ''12:30am''"
  by (simp add: displayTimeStamp_def new_Date_def getHours_def getMinutes_def js_trunc_def
      int_ge_def int_lt_def int_eq_def int_rem_def Number_toString_def string_of_nat.simps
      digit_def)

section \<open>Properties of the handlers\<close>

lemma state_foldl_run_callback: "state (foldl run_callback w cbs) = state w"
  by (induction cbs arbitrary: w)
     (simp_all add: run_callback_def saveStateToLocal_def split: callback.splits)

lemma state_dispatch:
  "state (dispatch handler w)
     = next_state (handler \<lparr>this_state = state w, next_state = state w, callbacks = [],
                            scheduled = []\<rparr>)"
  by (simp add: dispatch_def Let_def state_foldl_run_callback)

lemma state_saveStateToLocal: "state (saveStateToLocal w) = state w"
  by (simp add: saveStateToLocal_def)

lemma next_state_doTranistion:
  "next_state (doTranistion n t sv b) = (next_state b)\<lparr>inTransition := True, transitionTime := t\<rparr>"
  by (simp add: doTranistion_def setState_def Let_def)

lemma this_state_doTranistion: "this_state (doTranistion n t sv b) = this_state b"
  by (simp add: doTranistion_def setState_def Let_def)

lemma endFlow_inactive: "\<not> flow_active (currentFlow (this_state b)) \<Longrightarrow> endFlow clock b = b"
  by (simp add: endFlow_def flow_active_def split: option.splits)

lemma endFlow_active:
  "currentFlow (this_state b) = Some cf \<Longrightarrow> flow_active (Some cf) \<Longrightarrow>
   endFlow clock b =
     setState (\<lambda>s. s\<lparr>currentFlow := Some empty_object,
                      flows := flows (this_state b) @ [cf\<lparr>endTime := Some (getTimeStamp clock)\<rparr>]\<rparr>)
       [SaveStateToLocal] b"
  by (simp add: endFlow_def flow_active_def Let_def)

lemma dispatch_endFlow_inactive:
  "\<not> flow_active (currentFlow (state w)) \<Longrightarrow> dispatch (endFlow clock) w = w"
  by (simp add: dispatch_def endFlow_inactive)

lemma state_dispatch_endFlow_active:
  "currentFlow (state w) = Some cf \<Longrightarrow> flow_active (Some cf) \<Longrightarrow>
   state (dispatch (endFlow clock) w)
     = (state w)\<lparr>currentFlow := Some empty_object,
                 flows := flows (state w) @ [cf\<lparr>endTime := Some (getTimeStamp clock)\<rparr>]\<rparr>"
  by (simp add: state_dispatch endFlow_active setState_def)

lemma empty_object_inactive: "\<not> flow_active (Some empty_object)"
  by (simp add: flow_active_def empty_object_def falsy_def)

lemma next_state_endFlow:
  "next_state (endFlow clock \<lparr>this_state = s, next_state = s, callbacks = [], scheduled = []\<rparr>)
     = (case currentFlow s of
          None \<Rightarrow> s
        | Some cf \<Rightarrow>
            if falsy (name cf) then s
            else s\<lparr>currentFlow := Some empty_object,
                   flows := flows s @ [cf\<lparr>endTime := Some (getTimeStamp clock)\<rparr>]\<rparr>)"
  by (simp add: endFlow_def setState_def Let_def split: option.splits)

text \<open>
  C3. \<open>endFlow\<close> does nothing at all when no flow is active, that is when
  \<open>currentFlow\<close> is \<^verbatim>\<open>null\<close>, has no name or has the empty name: the world stays as it
  is, so nothing is appended. When a flow is active, a copy of it with \<open>endTime\<close> set to
  the time stamp is appended to \<open>flows\<close> and \<open>currentFlow\<close> is replaced by the empty
  object, which is not an active flow. A second \<open>endFlow\<close> right after the first changes
  nothing.
\<close>

theorem endFlow_idempotent:
  "(\<not> flow_active (currentFlow (state w)) \<longrightarrow> dispatch (endFlow clock) w = w)
   \<and> (\<forall>cf. currentFlow (state w) = Some cf \<and> flow_active (Some cf) \<longrightarrow>
         flows (state (dispatch (endFlow clock) w))
           = flows (state w) @ [cf\<lparr>endTime := Some (getTimeStamp clock)\<rparr>]
         \<and> currentFlow (state (dispatch (endFlow clock) w)) = Some empty_object
         \<and> \<not> flow_active (currentFlow (state (dispatch (endFlow clock) w))))
   \<and> dispatch (endFlow clock') (dispatch (endFlow clock) w) = dispatch (endFlow clock) w"
proof -
  have noop: "dispatch (endFlow c) v = v" if "\<not> flow_active (currentFlow (state v))" for c v
    using that by (rule dispatch_endFlow_inactive)
  have act: "flows (state (dispatch (endFlow clock) w))
           = flows (state w) @ [cf\<lparr>endTime := Some (getTimeStamp clock)\<rparr>]
         \<and> currentFlow (state (dispatch (endFlow clock) w)) = Some empty_object
         \<and> \<not> flow_active (currentFlow (state (dispatch (endFlow clock) w)))"
    if "currentFlow (state w) = Some cf" and "flow_active (Some cf)" for cf
    by (simp add: state_dispatch_endFlow_active [OF that] empty_object_inactive)
  have after: "\<not> flow_active (currentFlow (state (dispatch (endFlow clock) w)))"
  proof (cases "flow_active (currentFlow (state w))")
    case True
    then obtain cf where "currentFlow (state w) = Some cf" and "flow_active (Some cf)"
      by (cases "currentFlow (state w)") (simp_all add: flow_active_def)
    then show ?thesis using act by blast
  next
    case False
    then show ?thesis by (simp add: noop)
  qed
  from noop [of w clock] act noop [OF after, of clock'] show ?thesis
    by blast
qed

theorem endFlow_idempotent_witness:
  "dispatch (endFlow 9000) initial = initial
   \<and> flow_active (Some \<lparr>name = Some ''a'', startTime = Some (Fin 5), endTime = None\<rparr>)
   \<and> flows (state (dispatch (endFlow 9000)
        (initial\<lparr>state := DEFAULT_STATE\<lparr>currentFlow :=
           Some \<lparr>name = Some ''a'', startTime = Some (Fin 5), endTime = None\<rparr>\<rparr>\<rparr>)))
       = [\<lparr>name = Some ''a'', startTime = Some (Fin 5), endTime = Some (Fin 9)\<rparr>]
   \<and> currentFlow (state (dispatch (endFlow 9000)
        (initial\<lparr>state := DEFAULT_STATE\<lparr>currentFlow :=
           Some \<lparr>name = Some ''a'', startTime = Some (Fin 5), endTime = None\<rparr>\<rparr>\<rparr>)))
       = Some \<lparr>name = None, startTime = None, endTime = None\<rparr>"
proof -
  let ?cf = "\<lparr>name = Some ''a'', startTime = Some (Fin 5), endTime = None\<rparr>"
  let ?w = "initial\<lparr>state := DEFAULT_STATE\<lparr>currentFlow := Some ?cf\<rparr>\<rparr>"
  have a: "\<not> flow_active (currentFlow (state initial))"
    by (simp add: initial_def DEFAULT_STATE_def flow_active_def)
  have b: "currentFlow (state ?w) = Some ?cf \<and> flow_active (Some ?cf)"
    by (simp add: flow_active_def falsy_def)
  have d: "getTimeStamp 9000 = Fin 9"
    by code_simp
  from endFlow_idempotent [of initial 9000 9000] a
  have "dispatch (endFlow 9000) initial = initial"
    by blast
  moreover from endFlow_idempotent [of ?w 9000 9000] b
  have "flows (state (dispatch (endFlow 9000) ?w))
           = flows (state ?w) @ [?cf\<lparr>endTime := Some (getTimeStamp 9000)\<rparr>]
         \<and> currentFlow (state (dispatch (endFlow 9000) ?w)) = Some empty_object"
    by blast
  ultimately show ?thesis
    using b by (simp add: d empty_object_def DEFAULT_STATE_def)
qed

lemma next_state_setState: "next_state (setState f cb b) = f (next_state b)"
  by (simp add: setState_def)

lemma this_state_setState: "this_state (setState f cb b) = this_state b"
  by (simp add: setState_def)

lemma this_state_endFlow: "this_state (endFlow clock b) = this_state b"
  by (simp add: endFlow_def setState_def Let_def split: option.splits)

lemma state_dispatch_startFlow:
  "state (dispatch (startFlow clock task) w)
     = (state w)\<lparr>currentFlow :=
         Some \<lparr>name = Some task, startTime = Some (getTimeStamp clock), endTime = None\<rparr>\<rparr>"
  by (simp add: state_dispatch startFlow_def setState_def Let_def)

lemma handleFlowSubmit_empty: "flowInput (this_state b) = [] \<Longrightarrow> handleFlowSubmit clock b = b"
  by (simp add: handleFlowSubmit_def)

lemma state_dispatch_handleFlowSubmit:
  "flowInput (state w) \<noteq> [] \<Longrightarrow>
   state (dispatch (handleFlowSubmit clock) w)
     = (state w)\<lparr>currentFlow :=
           Some \<lparr>name = Some (flowInput (state w)), startTime = Some (getTimeStamp clock),
                 endTime = None\<rparr>,
         inTransition := True, transitionTime := Fin 500\<rparr>"
  by (simp add: state_dispatch handleFlowSubmit_def next_state_doTranistion startFlow_def
      setState_def Let_def)

text \<open>
  C1, as the claim states it, fails. In the session below the start button is clicked,
  the prompt appears, a name is typed and the form is submitted twice, the second time
  while the prompt is still on the screen (the timer of the transition has not fired).
  The first submit starts the flow at second 5; after the second submit its start time
  is 5.2, as a double.
\<close>

theorem startFlow_twice_counterexample:
  "map_option (\<lambda>w. currentFlow (state w))
      (run initial [StartClick 1000, TimerFires 0, FlowInputChange ''a'', FlowSubmit 5000])
     = Some (Some \<lparr>name = Some ''a'', startTime = Some (Fin 5), endTime = None\<rparr>)
   \<and> map_option (\<lambda>w. currentFlow (state w))
      (run initial [StartClick 1000, TimerFires 0, FlowInputChange ''a'', FlowSubmit 5000,
                    FlowSubmit 5200])
     = Some (Some \<lparr>name = Some ''a'',
                    startTime = Some (Fin (5854679515581645 / 1125899906842624)),
                    endTime = None\<rparr>)
   \<and> Fin (5854679515581645 / 1125899906842624) \<noteq> Fin 5"
  by code_simp

text \<open>
  C1, amended. \<open>currentFlow\<close> is one field, so there is at most one current flow.
  \<open>startFlow\<close> does not look at it: whatever the state, afterwards the current flow is
  the new one, with the time stamp of the call as its start time. A submit with an
  empty input changes nothing; any other submit starts a new flow in this way, also
  when a flow is active.
\<close>

theorem startFlow_overwrites:
  "currentFlow (state (dispatch (startFlow clock task) w))
     = Some \<lparr>name = Some task, startTime = Some (getTimeStamp clock), endTime = None\<rparr>
   \<and> (if flowInput (state w) = [] then step w (FlowSubmit clock) = w
       else currentFlow (state (step w (FlowSubmit clock)))
              = Some \<lparr>name = Some (flowInput (state w)),
                      startTime = Some (getTimeStamp clock), endTime = None\<rparr>)"
proof -
  have "step w (FlowSubmit clock) = w" if "flowInput (state w) = []"
    using that by (simp add: dispatch_def handleFlowSubmit_empty)
  then show ?thesis
    by (simp add: state_dispatch_startFlow state_dispatch_handleFlowSubmit)
qed

text \<open>
  C4, as the claim states it, fails: after a flow is started and paused, \<open>currentFlow\<close>
  is not \<^verbatim>\<open>null\<close> but the object \<^verbatim>\<open>{}\<close>.
\<close>

theorem currentFlow_after_pause_counterexample:
  "map_option (\<lambda>w. currentFlow (state w))
      (run initial [StartClick 1000, TimerFires 0, FlowInputChange ''a'', FlowSubmit 5000,
                    TimerFires 0, PauseFlowClick 9000])
     = Some (Some \<lparr>name = None, startTime = None, endTime = None\<rparr>)
   \<and> Some \<lparr>name = None, startTime = None, endTime = None\<rparr> \<noteq> (None :: IFlowItem option)"
  by code_simp

text \<open>
  C4, amended. \<open>currentFlow\<close> is one field. It is \<^verbatim>\<open>null\<close> in the default state and
  after a reset. After \<open>endFlow\<close> has ended an active flow, by the pause button or by the
  end-day link, it is the empty object: an object with no name, no start time and no
  end time, which the guard of \<open>endFlow\<close> takes for no flow.
\<close>

theorem currentFlow_after_endFlow:
  "(flow_active (currentFlow (state w)) \<longrightarrow>
      currentFlow (state (dispatch (endFlow clock) w)) = Some empty_object
      \<and> currentFlow (state (step w (PauseFlowClick clock))) = Some empty_object
      \<and> currentFlow (state (step w (EndClick clock clock'))) = Some empty_object)
   \<and> empty_object = \<lparr>name = None, startTime = None, endTime = None\<rparr>
   \<and> \<not> flow_active (Some empty_object)
   \<and> currentFlow DEFAULT_STATE = None
   \<and> currentFlow (state (step w ResetClick)) = None"
proof -
  have ended: "currentFlow (state (dispatch (endFlow clock) w)) = Some empty_object
      \<and> currentFlow (state (step w (PauseFlowClick clock))) = Some empty_object
      \<and> currentFlow (state (step w (EndClick clock clock'))) = Some empty_object"
    if "flow_active (currentFlow (state w))"
  proof -
    from that obtain cf where cf: "currentFlow (state w) = Some cf" "\<not> falsy (name cf)"
      by (cases "currentFlow (state w)") (simp_all add: flow_active_def)
    have "currentFlow (state (dispatch (endFlow clock) w)) = Some empty_object"
      by (simp add: state_dispatch next_state_endFlow cf)
    moreover have "currentFlow (state (step w (PauseFlowClick clock))) = Some empty_object"
      by (simp add: state_dispatch handlePauseFlowClick_def next_state_doTranistion
          next_state_endFlow cf)
    moreover have "currentFlow (state (step w (EndClick clock clock'))) = Some empty_object"
      by (simp add: state_dispatch handleEndClick_def next_state_doTranistion
          next_state_setState next_state_endFlow cf)
    ultimately show ?thesis
      by simp
  qed
  have reset: "currentFlow (state (step w ResetClick)) = None"
    by (simp add: state_dispatch handleResetClick_def next_state_setState DEFAULT_STATE_def)
  have obj: "empty_object = \<lparr>name = None, startTime = None, endTime = None\<rparr>"
    by (simp add: empty_object_def)
  have dflt: "currentFlow DEFAULT_STATE = None"
    by (simp add: DEFAULT_STATE_def)
  from ended reset obj dflt empty_object_inactive show ?thesis
    by blast
qed

theorem currentFlow_after_endFlow_witness:
  "flow_active (currentFlow (state (initial\<lparr>state := DEFAULT_STATE\<lparr>currentFlow :=
       Some \<lparr>name = Some ''a'', startTime = Some (Fin 5), endTime = None\<rparr>\<rparr>\<rparr>)))
   \<and> currentFlow (state (step (initial\<lparr>state := DEFAULT_STATE\<lparr>currentFlow :=
       Some \<lparr>name = Some ''a'', startTime = Some (Fin 5), endTime = None\<rparr>\<rparr>\<rparr>)
         (PauseFlowClick 9000)))
       = Some \<lparr>name = None, startTime = None, endTime = None\<rparr>"
proof -
  let ?w = "initial\<lparr>state := DEFAULT_STATE\<lparr>currentFlow :=
       Some \<lparr>name = Some ''a'', startTime = Some (Fin 5), endTime = None\<rparr>\<rparr>\<rparr>"
  have a: "flow_active (currentFlow (state ?w))"
    by (simp add: flow_active_def falsy_def)
  from currentFlow_after_endFlow [of ?w 9000 9000] a
  have "currentFlow (state (step ?w (PauseFlowClick 9000))) = Some empty_object
        \<and> empty_object = \<lparr>name = None, startTime = None, endTime = None\<rparr>"
    by blast
  with a show ?thesis
    by simp
qed

lemma step_flows_prefix:
  assumes "e \<noteq> ResetClick"
  shows "prefix (flows (state w)) (flows (state (step w e)))"
proof (cases e)
  case (StartClick c)
  then show ?thesis
    by (simp add: state_dispatch handleStartClick_def next_state_doTranistion next_state_setState)
next
  case (FlowInputChange v)
  then show ?thesis
    by (simp add: state_dispatch handleFlowInputChange_def next_state_setState)
next
  case (FlowSubmit c)
  then show ?thesis
    by (simp add: state_dispatch handleFlowSubmit_def next_state_doTranistion startFlow_def
        next_state_setState Let_def)
next
  case (PauseFlowClick c)
  then show ?thesis
    by (simp add: state_dispatch handlePauseFlowClick_def next_state_doTranistion
        next_state_endFlow split: option.splits)
next
  case (EndClick c c')
  then show ?thesis
    by (simp add: state_dispatch handleEndClick_def next_state_doTranistion
        next_state_setState next_state_endFlow split: option.splits)
next
  case (SliderChange v)
  then show ?thesis
    by (simp add: state_dispatch handleSliderChange_def next_state_setState)
next
  case ResetClick
  with assms show ?thesis by simp
next
  case (TimerFires i)
  then show ?thesis
    by (simp add: transitionTimeout_def Let_def state_saveStateToLocal)
qed

lemma foldl_step_flows_prefix:
  "ResetClick \<notin> set es \<Longrightarrow> prefix (flows (state w)) (flows (state (foldl step w es)))"
proof (induction es arbitrary: w)
  case Nil
  then show ?case by simp
next
  case (Cons e es)
  then have "e \<noteq> ResetClick"
    by auto
  then have "prefix (flows (state w)) (flows (state (step w e)))"
    by (rule step_flows_prefix)
  moreover from Cons have "prefix (flows (state (step w e))) (flows (state (foldl step (step w e) es)))"
    by simp
  ultimately show ?case
    by (auto intro: prefix_order.trans)
qed

text \<open>
  C9, as the claim states it, fails: the list has one flow at the end of the day and
  none after "start over".
\<close>

theorem flows_reset_counterexample:
  "map_option (\<lambda>w. length (flows (state w)))
      (run initial [StartClick 1000, TimerFires 0, FlowInputChange ''a'', FlowSubmit 5000,
                    TimerFires 0, EndClick 9000 9000, TimerFires 0])
     = Some 1
   \<and> map_option (\<lambda>w. length (flows (state w)))
      (run initial [StartClick 1000, TimerFires 0, FlowInputChange ''a'', FlowSubmit 5000,
                    TimerFires 0, EndClick 9000 9000, TimerFires 0, ResetClick])
     = Some 0"
  by code_simp

text \<open>
  C9, amended. Over any sequence of events without a reset the list of completed flows
  grows at its end only: the list before is a prefix of the list after, so its length
  does not go down and its order is the order of completion. A reset empties the list.
  \<open>endFlow\<close> without an active flow appends nothing.
\<close>

theorem flows_append_only:
  assumes "ResetClick \<notin> set es"
  shows "prefix (flows (state w)) (flows (state (foldl step w es)))
         \<and> length (flows (state w)) \<le> length (flows (state (foldl step w es)))
         \<and> flows (state (step w ResetClick)) = []
         \<and> (if flow_active (currentFlow (state w))
            then \<exists>cf. currentFlow (state w) = Some cf
                   \<and> flows (state (dispatch (endFlow clock) w))
                       = flows (state w) @ [cf\<lparr>endTime := Some (getTimeStamp clock)\<rparr>]
            else flows (state (dispatch (endFlow clock) w)) = flows (state w))"
proof -
  from assms have p: "prefix (flows (state w)) (flows (state (foldl step w es)))"
    by (rule foldl_step_flows_prefix)
  then have l: "length (flows (state w)) \<le> length (flows (state (foldl step w es)))"
    by (rule prefix_length_le)
  have r: "flows (state (step w ResetClick)) = []"
    by (simp add: state_dispatch handleResetClick_def next_state_setState DEFAULT_STATE_def)
  have e: "(if flow_active (currentFlow (state w))
            then \<exists>cf. currentFlow (state w) = Some cf
                   \<and> flows (state (dispatch (endFlow clock) w))
                       = flows (state w) @ [cf\<lparr>endTime := Some (getTimeStamp clock)\<rparr>]
            else flows (state (dispatch (endFlow clock) w)) = flows (state w))"
    by (simp add: state_dispatch next_state_endFlow flow_active_def split: option.splits)
  from p l r e show ?thesis by blast
qed

theorem flows_append_only_witness:
  "ResetClick \<notin> set [FlowSubmit 5000, PauseFlowClick 9000, FlowSubmit 9500, EndClick 9900 9900]
   \<and> flows (state (foldl step (initial\<lparr>state := DEFAULT_STATE\<lparr>flowInput := ''a''\<rparr>\<rparr>)
        [FlowSubmit 5000, PauseFlowClick 9000, FlowSubmit 9500, EndClick 9900 9900]))
      = [\<lparr>name = Some ''a'', startTime = Some (Fin 5), endTime = Some (Fin 9)\<rparr>,
         \<lparr>name = Some ''a'', startTime = Some (Fin (19 / 2)),
          endTime = Some (Fin (5573204538870989 / 562949953421312))\<rparr>]
   \<and> prefix (flows (state (initial\<lparr>state := DEFAULT_STATE\<lparr>flowInput := ''a''\<rparr>\<rparr>)))
        (flows (state (foldl step (initial\<lparr>state := DEFAULT_STATE\<lparr>flowInput := ''a''\<rparr>\<rparr>)
           [FlowSubmit 5000, PauseFlowClick 9000, FlowSubmit 9500, EndClick 9900 9900])))"
proof -
  let ?es = "[FlowSubmit 5000, PauseFlowClick 9000, FlowSubmit 9500, EndClick 9900 9900]"
  let ?w = "initial\<lparr>state := DEFAULT_STATE\<lparr>flowInput := ''a''\<rparr>\<rparr>"
  have a: "ResetClick \<notin> set ?es"
    by simp
  have b: "flows (state (foldl step ?w ?es))
      = [\<lparr>name = Some ''a'', startTime = Some (Fin 5), endTime = Some (Fin 9)\<rparr>,
         \<lparr>name = Some ''a'', startTime = Some (Fin (19 / 2)),
          endTime = Some (Fin (5573204538870989 / 562949953421312))\<rparr>]"
    by code_simp
  from flows_append_only [OF a, of ?w 0] a b show ?thesis
    by blast
qed

text \<open>
  Rounding in a session. A flow is started at the clock reading 496003 and paused at
  4096003, which is 3600000 milliseconds later. The two time stamps are doubles, their
  difference as a double is a little less than 3600, and at 60 minutes the summary
  leaves the flow out.
\<close>

lemma session_rounded_duration:
  "map_option (\<lambda>w. (flows (state w), map (FlowSummary_item (state w)) (flows (state w))))
      (run initial [StartClick 1000, TimerFires 0, FlowInputChange ''a'', FlowSubmit 496003,
                    TimerFires 0, PauseFlowClick 4096003])
     = Some ([\<lparr>name = Some ''a'',
               startTime = Some (Fin (8725777054588469 / 17592186044416)),
               endTime = Some (Fin (4503602925905379 / 1099511627776))\<rparr>],
             [None])"
  by code_simp

section \<open>Properties of persistence\<close>

lemma number_roundtrip: "is_finite x \<Longrightarrow> number_of_json (JSON_number x) = Some x"
  by (cases x) (simp_all add: is_finite_def JSON_number_def number_of_json_def)

lemma FlowState_roundtrip: "FlowState_of_json (JNum (of_nat (FlowState_index fs))) = Some fs"
  by (cases fs) (simp_all add: FlowState_of_json_def)

lemma IFlowItem_roundtrip:
  assumes "valid_item f"
  shows "IFlowItem_of_json (IFlowItem_json f) = Some f"
proof -
  obtain n st en where f: "f = \<lparr>name = n, startTime = st, endTime = en\<rparr>"
    by (cases f) simp
  from assms f have st: "st = None \<or> (\<exists>x. st = Some x \<and> is_finite x)"
    and en: "en = None \<or> (\<exists>x. en = Some x \<and> is_finite x)"
    by (auto simp add: valid_item_def finite_or_missing_def split: option.splits)
  from st en show ?thesis
    by (cases n)
       (auto simp add: f IFlowItem_json_def IFlowItem_of_json_def property_def member_def
          optional_def string_of_json_def number_roundtrip)
qed

lemma flows_roundtrip:
  "list_all valid_item fl \<Longrightarrow> those (map IFlowItem_of_json (map IFlowItem_json fl)) = Some fl"
  by (induction fl) (simp_all add: IFlowItem_roundtrip)

lemma currentFlow_roundtrip:
  "(case cf of None \<Rightarrow> True | Some f \<Rightarrow> valid_item f) \<Longrightarrow>
   currentFlow_of_json (case cf of None \<Rightarrow> JNull | Some f \<Rightarrow> IFlowItem_json f) = Some cf"
proof (cases cf)
  case None
  then show ?thesis by (simp add: currentFlow_of_json_def)
next
  case (Some f)
  assume "case cf of None \<Rightarrow> True | Some f \<Rightarrow> valid_item f"
  with Some have "IFlowItem_of_json (IFlowItem_json f) = Some f"
    by (simp add: IFlowItem_roundtrip)
  with Some show ?thesis
    by (simp add: currentFlow_of_json_def IFlowItem_json_def)
qed

lemma AppState_roundtrip:
  assumes "valid_snapshot s"
  shows "AppState_of_json (JSON_stringify s) = Some s"
proof -
  from assms have n: "number_of_json (JSON_number (state_startTime s)) = Some (state_startTime s)"
      "number_of_json (JSON_number (state_endTime s)) = Some (state_endTime s)"
      "number_of_json (JSON_number (transitionTime s)) = Some (transitionTime s)"
      "number_of_json (JSON_number (filterFlowLength s)) = Some (filterFlowLength s)"
    by (simp_all add: valid_snapshot_def number_roundtrip)
  from assms have c: "currentFlow_of_json
      (case currentFlow s of None \<Rightarrow> JNull | Some f \<Rightarrow> IFlowItem_json f) = Some (currentFlow s)"
    by (simp add: valid_snapshot_def currentFlow_roundtrip)
  from assms have l: "flows_of_json (JArr (map IFlowItem_json (flows s))) = Some (flows s)"
    by (simp add: valid_snapshot_def flows_of_json_def flows_roundtrip del: map_map)
  show ?thesis
    by (simp add: JSON_stringify_def AppState_of_json_def member_def required_def
        string_of_json_def bool_of_json_def n c l FlowState_roundtrip)
qed

lemma bitlen_le:
  assumes "a < 2 ^ k"
  shows "bitlen a \<le> int k"
proof (cases "0 < a")
  case True
  then have "2 ^ nat (bitlen a - 1) \<le> a"
    using bitlen_bounds [of a] by simp
  from this assms have "(2 :: int) ^ nat (bitlen a - 1) < 2 ^ k"
    by (rule le_less_trans)
  then have "nat (bitlen a - 1) < k"
    by simp
  then show ?thesis
    by simp
next
  case False
  then have "bitlen a = 0"
    by (simp add: bitlen_eq_zero_iff)
  then show ?thesis
    by simp
qed

lemma ilog2_le:
  assumes "x < 2 ^ k"
  shows "ilog2 x \<le> int k"
proof (cases "1 \<le> x")
  case True
  from assms have "\<lfloor>x\<rfloor> < 2 ^ k"
    by (simp add: floor_less_iff)
  then have "bitlen \<lfloor>x\<rfloor> \<le> int k"
    by (rule bitlen_le)
  with True show ?thesis
    by (simp add: ilog2_def)
next
  case False
  have "0 \<le> bitlen (\<lceil>1 / x\<rceil> - 1)"
    by (rule bitlen_nonneg)
  with False show ?thesis
    by (simp add: ilog2_def)
qed

lemma round_double_finite:
  assumes "\<bar>x\<bar> < 2 ^ 50"
  shows "is_finite (round_double x)"
proof -
  from assms have "ilog2 \<bar>x\<bar> \<le> 50"
    using ilog2_le [of "\<bar>x\<bar>" 50] by simp
  then show ?thesis
    by (simp add: round_double_def Let_def is_finite_def)
qed

lemma getTimeStamp_finite:
  assumes "clock_in_range clock"
  shows "is_finite (getTimeStamp clock)"
proof -
  from assms have "\<bar>of_int clock :: rat\<bar> \<le> 8640000000000000"
    unfolding clock_in_range_def of_int_abs [symmetric] by (simp only: of_int_le_numeral_iff)
  then have "\<bar>of_int clock / 1000 :: rat\<bar> < 2 ^ 50"
    by simp
  then have "is_finite (round_double (of_int clock / 1000))"
    by (rule round_double_finite)
  then show ?thesis
    by (simp add: getTimeStamp_def to_double_def)
qed

text \<open>
  The states of a session are valid snapshots: an event keeps the numbers finite,
  provided its clock readings are time values and the value that the slider delivers is
  finite.
\<close>

lemma DEFAULT_STATE_valid: "valid_snapshot DEFAULT_STATE"
  by (simp add: valid_snapshot_def DEFAULT_STATE_def DEFAULT_ALLOWED_FLOW_LENGTH_def
      is_finite_def)

lemma valid_item_ended:
  "clock_in_range c \<Longrightarrow> valid_item cf \<Longrightarrow> valid_item (cf\<lparr>endTime := Some (getTimeStamp c)\<rparr>)"
  by (simp add: valid_item_def finite_or_missing_def getTimeStamp_finite)

lemma valid_item_empty_object: "valid_item empty_object"
  by (simp add: valid_item_def finite_or_missing_def empty_object_def)

lemma valid_item_started:
  "clock_in_range c \<Longrightarrow>
   valid_item \<lparr>name = n, startTime = Some (getTimeStamp c), endTime = None\<rparr>"
  by (simp add: valid_item_def finite_or_missing_def getTimeStamp_finite)

lemma valid_next_state_endFlow:
  assumes "valid_snapshot s" and "clock_in_range c"
  shows "valid_snapshot
           (next_state (endFlow c \<lparr>this_state = s, next_state = s, callbacks = [],
                                   scheduled = []\<rparr>))"
proof (cases "currentFlow s")
  case None
  with assms(1) show ?thesis by (simp add: next_state_endFlow)
next
  case (Some cf)
  with assms have "valid_item cf"
    by (simp add: valid_snapshot_def)
  with assms(2) have "valid_item (cf\<lparr>endTime := Some (getTimeStamp c)\<rparr>)"
    by (rule valid_item_ended)
  with assms(1) Some show ?thesis
    by (simp add: next_state_endFlow valid_snapshot_def valid_item_empty_object)
qed

lemma valid_snapshot_transition:
  "valid_snapshot s \<Longrightarrow> valid_snapshot (s\<lparr>inTransition := True, transitionTime := Fin t\<rparr>)"
  by (simp add: valid_snapshot_def is_finite_def)

lemma valid_snapshot_day:
  "clock_in_range c \<Longrightarrow> valid_snapshot s \<Longrightarrow>
   valid_snapshot (s\<lparr>state_startTime := getTimeStamp c\<rparr>)"
  "clock_in_range c \<Longrightarrow> valid_snapshot s \<Longrightarrow>
   valid_snapshot (s\<lparr>state_endTime := getTimeStamp c\<rparr>)"
  by (simp_all add: valid_snapshot_def getTimeStamp_finite)

lemma step_valid_snapshot:
  assumes "valid_snapshot (state w)" and "event_in_range e"
  shows "valid_snapshot (state (step w e))"
proof (cases e)
  case (StartClick c)
  with assms show ?thesis
    by (simp add: state_dispatch handleStartClick_def next_state_doTranistion
        next_state_setState valid_snapshot_transition valid_snapshot_day)
next
  case (FlowInputChange v)
  with assms(1) show ?thesis
    by (simp add: state_dispatch handleFlowInputChange_def next_state_setState
        valid_snapshot_def)
next
  case (FlowSubmit c)
  with assms(2) have "clock_in_range c"
    by simp
  then have "valid_snapshot ((state w)\<lparr>currentFlow := Some \<lparr>name = n,
          startTime = Some (getTimeStamp c), endTime = None\<rparr>\<rparr>)" for n
    using assms(1) by (simp add: valid_snapshot_def valid_item_started)
  with assms(1) FlowSubmit show ?thesis
    by (simp add: state_dispatch handleFlowSubmit_def next_state_doTranistion startFlow_def
        next_state_setState Let_def valid_snapshot_transition)
next
  case (PauseFlowClick c)
  with assms show ?thesis
    by (simp add: state_dispatch handlePauseFlowClick_def next_state_doTranistion
        valid_next_state_endFlow valid_snapshot_transition)
next
  case (EndClick c c')
  with assms show ?thesis
    by (simp add: state_dispatch handleEndClick_def next_state_doTranistion
        next_state_setState valid_next_state_endFlow valid_snapshot_transition
        valid_snapshot_day)
next
  case (SliderChange v)
  with assms show ?thesis
    by (simp add: state_dispatch handleSliderChange_def next_state_setState valid_snapshot_def)
next
  case ResetClick
  then show ?thesis
    by (simp add: state_dispatch handleResetClick_def next_state_setState DEFAULT_STATE_valid)
next
  case (TimerFires i)
  with assms(1) show ?thesis
    by (simp add: transitionTimeout_def Let_def state_saveStateToLocal valid_snapshot_def)
qed

text \<open>
  A number that is not finite does not survive: it is written as \<^verbatim>\<open>null\<close>.
\<close>

lemma NaN_not_restored:
  "AppState_of_json (JSON_stringify (DEFAULT_STATE\<lparr>state_startTime := NaN\<rparr>)) = None"
  by (simp add: JSON_stringify_def AppState_of_json_def member_def required_def
      JSON_number_def number_of_json_def DEFAULT_STATE_def)

text \<open>
  C8. For a snapshot whose numbers are finite, reading back what \<open>saveStateToLocal\<close>
  wrote gives the snapshot again: the JSON value of the state reads as the state, and
  the constructor, when storage exists and the user agrees to load, starts from the
  saved state.
\<close>

theorem persistence_roundtrip:
  assumes "valid_snapshot (state w)" and "hasStorage w"
  shows "AppState_of_json (JSON_stringify (state w)) = Some (state w)
         \<and> localStorage (saveStateToLocal w) = Some (JSON_stringify (state w))
         \<and> constructor (hasStorage w) (localStorage (saveStateToLocal w)) True = Some (state w)"
  using assms by (simp add: AppState_roundtrip saveStateToLocal_def constructor_def)

theorem persistence_roundtrip_witness:
  "valid_snapshot
     \<lparr>state_startTime = Fin 1, state_endTime = Fin 0, flowInput = ''b'',
      currentFlow = Some \<lparr>name = Some ''b'', startTime = Some (Fin (19 / 2)), endTime = None\<rparr>,
      flowState = InFlow,
      flows = [\<lparr>name = Some ''a'', startTime = Some (Fin 5), endTime = Some (Fin 9)\<rparr>],
      inTransition = False, transitionTime = Fin 500, filterFlowLength = Fin 60\<rparr>
   \<and> constructor True
       (localStorage (saveStateToLocal
          \<lparr>state =
             \<lparr>state_startTime = Fin 1, state_endTime = Fin 0, flowInput = ''b'',
              currentFlow =
                Some \<lparr>name = Some ''b'', startTime = Some (Fin (19 / 2)), endTime = None\<rparr>,
              flowState = InFlow,
              flows = [\<lparr>name = Some ''a'', startTime = Some (Fin 5), endTime = Some (Fin 9)\<rparr>],
              inTransition = False, transitionTime = Fin 500, filterFlowLength = Fin 60\<rparr>,
           hasStorage = True, localStorage = None, timers = []\<rparr>))
       True
     = Some \<lparr>state_startTime = Fin 1, state_endTime = Fin 0, flowInput = ''b'',
             currentFlow =
               Some \<lparr>name = Some ''b'', startTime = Some (Fin (19 / 2)), endTime = None\<rparr>,
             flowState = InFlow,
             flows = [\<lparr>name = Some ''a'', startTime = Some (Fin 5), endTime = Some (Fin 9)\<rparr>],
             inTransition = False, transitionTime = Fin 500, filterFlowLength = Fin 60\<rparr>"
proof -
  let ?s = "\<lparr>state_startTime = Fin 1, state_endTime = Fin 0, flowInput = ''b'',
      currentFlow = Some \<lparr>name = Some ''b'', startTime = Some (Fin (19 / 2)), endTime = None\<rparr>,
      flowState = InFlow,
      flows = [\<lparr>name = Some ''a'', startTime = Some (Fin 5), endTime = Some (Fin 9)\<rparr>],
      inTransition = False, transitionTime = Fin 500, filterFlowLength = Fin 60\<rparr>"
  let ?w = "\<lparr>state = ?s, hasStorage = True, localStorage = None, timers = []\<rparr>"
  have v: "valid_snapshot (state ?w)"
    by (simp add: valid_snapshot_def valid_item_def finite_or_missing_def is_finite_def)
  have h: "hasStorage ?w"
    by simp
  from persistence_roundtrip [OF v h]
  have "constructor (hasStorage ?w) (localStorage (saveStateToLocal ?w)) True = Some (state ?w)"
    by blast
  then have "constructor True (localStorage (saveStateToLocal ?w)) True = Some ?s"
    by simp
  moreover from v have "valid_snapshot ?s"
    by simp
  ultimately show ?thesis
    by blast
qed

end
